theory Spec2Isabelle
  imports Main "HOL-Library.Word" "HOL-Library.AList"
begin

section \<open>The ESP compiler of soulstruct (base/ezstate/esd/esp\_compiler.py)\<close>

text \<open>
  A shallow embedding of class \<open>ESPCompiler\<close>. The compiler walks the syntax tree that
  Python's \<open>ast.parse\<close> produces (the node classes of Python 3.8: \<open>ast.Num\<close>,
  \<open>ast.Str\<close> and \<open>ast.NameConstant\<close> are \<open>ast.Constant\<close> nodes told apart by the
  type of their value, and the slice of a subscript is an \<open>ast.Index\<close> node). The
  fields of \<open>self\<close> that the methods mutate while they compile the tests of a state
  are a record that every function takes and returns; the two dicts that are filled
  before and only read from then on are a second record, and \<open>self.states\<close> is the state
  of the loop that fills it. A raised exception is the \<open>Inl\<close> of a sum.

  Outside the model: floating-point literals (\<open>struct.pack("<d", n)\<close>), line numbers
  and messages of the exceptions, and the attributes that are written and never read
  (\<open>docstring\<close>, \<open>state_machine_index\<close>, \<open>written\<close>, the \<open>description\<close> of a state).
\<close>

subsection \<open>Syntax tree\<close>

type_synonym byte = "8 word"

datatype pyconst = CInt int | CStr string | CBool bool | CNone

datatype unaryop = Invert | NotOp | UAdd | USub

datatype boolop = And | Or

text \<open>The node classes of binary and comparison operators, the keys of \<open>OPERATORS_BY_NODE\<close>.\<close>

datatype opnode =
    Add | Sub | Mult | MatMult | Div | Mod | Pow | LShift | RShift
  | BitOr | BitXor | BitAnd | FloorDiv
  | Eq | NotEq | Lt | LtE | Gt | GtE | Is | IsNot | In | NotIn

text \<open>
  Python compares \<open>ast\<close> nodes by identity. The nodes that \<open>parse_args\<close> stores inside a
  call tuple (\<open>ast.Name\<close> and \<open>ast.Subscript\<close>) therefore carry the identity of the
  object as a number: two nodes of the tree are the same object exactly when they are
  the same term, and the parser gives every occurrence in the script a fresh object.
  Expressions and statements are one type, as they are in the dynamically typed source:
  \<open>is_call\<close> is asked about both.
\<close>

datatype node =
    Constant pyconst
  | UnaryOp unaryop node
  | BoolOp boolop "node list"
  | BinOp node opnode node
  | Compare node "opnode list" "node list"
  | Call node "node list" "(string \<times> node) list"
  | Name nat string
  | Subscript nat node node
  | Index node
  | Attribute node string
  | Expr node
  | IfNode node "node list" "node list"
  | Return "node option"
  | FunctionDef string "node list"
  | ClassDef string "node list"
  | Import
  | ImportFrom string "(string \<times> string option) list" nat
  | OtherNode

datatype error =
    ESDSyntaxError | ESDValueError | ESDError | ESDImportFromError
  | ValueError | TypeError | AttributeError | KeyError | LookupError | StructError
  | Blocked

text \<open>
  \<open>LookupError\<close> is the failed lookup in \<open>FUNCTION_ARG_BYTES_BY_COUNT\<close> (a \<open>KeyError\<close> or an
  \<open>IndexError\<close>, as the table is a dict or a sequence); \<open>StructError\<close> is \<open>struct.error\<close>;
  \<open>Blocked\<close> is \<open>Queue.get()\<close> on an empty queue, which never returns.
\<close>

subsection \<open>Compiled output\<close>

text \<open>
  The classes of \<open>self.esd.State\<close>, by the order of the arguments the compiler gives
  them: \<open>Command(bank, f_id, command_args)\<close>,
  \<open>Condition(next_state_index, test_ezl, pass_commands, subconditions)\<close> and
  \<open>State(index, conditions, enter_commands, exit_commands, ongoing_commands)\<close>.
\<close>

datatype Command = Command int int "byte list list"

datatype Condition = Condition int "byte list" "Command list" "Condition list"

datatype State =
  State (index_of_state: int) "Condition list" "Command list" "Command list" "Command list"

subsection \<open>Compiler state\<close>

text \<open>
  A value bound in \<open>self.globals\<close>: an integer, or an \<open>IntEnum\<close> class subscripted by
  member name (as those of \<open>darksouls1ptde/events/emevd/enums.py\<close>).
\<close>

datatype pyobj = IntObj int | EnumObj "(string \<times> int) list"

text \<open>
  An element of a call tuple after its first: \<open>parse_args\<close> stores numbers by value and
  names and subscripts as the node object.
\<close>

datatype arg = AInt int | ANode node

text \<open>
  The first element of a call tuple: \<open>get_calls\<close> stores the function's name,
  \<open>compile_test_function\<close> its numeric id. A Python \<open>str\<close> never equals an \<open>int\<close>.
\<close>

datatype fkey = FName string | FId int

type_synonym call = "fkey \<times> arg list"

datatype state_entry = StateEntry (entry_index: int) (entry_nodes: "node list")

text \<open>
  The two dicts of \<open>self\<close> that the first loop of \<open>compile_script\<close> fills and that the
  rest of the compiler only reads.
\<close>

record scope =
  globals :: "(string \<times> pyobj) list"
  state_info :: "(string \<times> state_entry) list"

text \<open>
  The fields of \<open>self\<close> under \<open># Condition state.\<close> in \<open>__init__\<close>, which the planner and
  the expression compiler change as they go.
\<close>

record compiler =
  registers :: "call option list"
  state_call_set :: "call set"
  to_write_count :: nat
  to_write :: "call list list"
  current_to_write :: "call list"

text \<open>
  The tables imported from modules that are not part of the compiler, for the
  \<open>ESD_TYPE\<close> of \<open>self.esd\<close>, and the two library functions it relies on:
  \<open>_import_from\<close>'s effect on the namespace and \<open>inspect.cleandoc\<close>.
\<close>

record env =
  TEST_FUNCTIONS_ID_BY_TYPE_NAME :: "string \<Rightarrow> int option"
  COMMANDS_BANK_ID_BY_TYPE_NAME :: "string \<Rightarrow> (int \<times> int) option"
  FUNCTION_ARG_BYTES_BY_COUNT :: "nat \<Rightarrow> byte list option"
  OPERATORS_BY_NODE :: "opnode \<Rightarrow> byte list option"
  import_from :: "string \<Rightarrow> (string \<times> string option) list \<Rightarrow> nat
                    \<Rightarrow> (string \<times> pyobj) list \<Rightarrow> error + (string \<times> pyobj) list"
  cleandoc :: "string \<Rightarrow> string"

text \<open>\<open>__init__\<close>: eight empty registers (the empty tuple is \<open>None\<close> here), nothing seen.\<close>

definition init_compiler :: compiler where
  "init_compiler =
     \<lparr> registers = replicate 8 None, state_call_set = {}, to_write_count = 0,
       to_write = [], current_to_write = [] \<rparr>"

definition reset_condition_registers :: "compiler \<Rightarrow> compiler" where
  "reset_condition_registers c =
     c\<lparr> registers := replicate 8 None, state_call_set := {}, to_write_count := 0,
        to_write := [], current_to_write := [] \<rparr>"

subsection \<open>Numbers and strings\<close>

text \<open>\<open>struct.pack("<i", n)\<close>: four bytes, least significant first; out of range raises.\<close>

definition pack_i :: "int \<Rightarrow> error + byte list" where
  "pack_i n =
     (if - (2 ^ 31) \<le> n \<and> n < 2 ^ 31
      then Inr (map (\<lambda>k. word_of_int (n div 256 ^ k)) [0, 1, 2, 3])
      else Inl StructError)"

text \<open>\<open>struct.pack("B", n)\<close>: one byte; out of range raises.\<close>

definition pack_B :: "int \<Rightarrow> error + byte list" where
  "pack_B n = (if 0 \<le> n \<and> n < 256 then Inr [word_of_int n] else Inl StructError)"

definition compile_number :: "int \<Rightarrow> error + byte list" where
  "compile_number n =
     (if -64 \<le> n \<and> n < 63 then pack_B (n + 64)
      else (case pack_i n of Inl e \<Rightarrow> Inl e | Inr bs \<Rightarrow> Inr (0x82 # bs)))"

text \<open>
  The reading of four little-endian bytes as a signed 32-bit integer, the inverse that
  the round trip of an encoded number is measured against.
\<close>

definition unpack_i :: "byte list \<Rightarrow> int" where
  "unpack_i bs =
     (let u = foldr (\<lambda>b acc. uint b + 256 * acc) bs 0
      in if u < 2 ^ 31 then u else u - 2 ^ 32)"

text \<open>\<open>s.encode("utf-16le")\<close> for the code points below 256 that a \<open>char\<close> holds.\<close>

definition compile_string :: "string \<Rightarrow> byte list" where
  "compile_string s = 0xa5 # concat (map (\<lambda>c. [of_char c, 0]) s) @ [0, 0]"

subsection \<open>Regular expressions and lookups\<close>

definition is_digit :: "char \<Rightarrow> bool" where
  "is_digit c = (c \<in> set ''0123456789'')"

text \<open>\<open>int(s)\<close> on a run of digits that \<open>\d*\<close> matched: the empty run raises.\<close>

definition py_int :: "string \<Rightarrow> error + int" where
  "py_int ds =
     (if ds = [] then Inl ValueError
      else Inr (foldl (\<lambda>a c. 10 * a + (of_char c - 48)) 0 ds))"

fun strip_prefix :: "string \<Rightarrow> string \<Rightarrow> string option" where
  "strip_prefix [] s = Some s"
| "strip_prefix (p # ps) [] = None"
| "strip_prefix (p # ps) (c # cs) = (if p = c then strip_prefix ps cs else None)"

text \<open>\<open>(?:talk|chr)_\<close> at the start of a string: what follows it, when it matches.\<close>

definition talk_or_chr :: "string \<Rightarrow> string option" where
  "talk_or_chr s =
     (case strip_prefix ''talk_'' s of Some r \<Rightarrow> Some r
      | None \<Rightarrow> strip_prefix ''chr_'' s)"

text \<open>\<open>_TEST_DEFAULT_RE.match(name)\<close>: \<open>Test_(?:talk|chr)_(\d*)\<close>; the result is group 1.\<close>

definition TEST_DEFAULT_RE :: "string \<Rightarrow> string option" where
  "TEST_DEFAULT_RE name =
     (case strip_prefix ''Test_'' name of None \<Rightarrow> None
      | Some r \<Rightarrow>
         (case talk_or_chr r of None \<Rightarrow> None
          | Some ds \<Rightarrow> Some (takeWhile is_digit ds)))"

text \<open>
  \<open>_COMMAND_DEFAULT_RE.match(name)\<close>: \<open>Command_(?:talk|chr)_(\d*)_(\d*)\<close>; the result
  is groups 1 and 2.
\<close>

definition COMMAND_DEFAULT_RE :: "string \<Rightarrow> (string \<times> string) option" where
  "COMMAND_DEFAULT_RE name =
     (case strip_prefix ''Command_'' name of None \<Rightarrow> None
      | Some r \<Rightarrow>
         (case talk_or_chr r of None \<Rightarrow> None
          | Some ds \<Rightarrow>
             (case strip_prefix ''_'' (dropWhile is_digit ds) of None \<Rightarrow> None
              | Some ds2 \<Rightarrow> Some (takeWhile is_digit ds, takeWhile is_digit ds2))))"

text \<open>\<open>_STATE_DOCSTRING_RE.match(docstring)\<close>: \<open>([0-9]+)(:\s*.*)?\<close>; the result is group 1.\<close>

definition STATE_DOCSTRING_RE :: "string \<Rightarrow> string option" where
  "STATE_DOCSTRING_RE docstring =
     (if takeWhile is_digit docstring = [] then None
      else Some (takeWhile is_digit docstring))"

text \<open>\<open>self.globals[node.value.id][node.attr]\<close>\<close>

definition globals_lookup :: "(string \<times> pyobj) list \<Rightarrow> node \<Rightarrow> string \<Rightarrow> error + int" where
  "globals_lookup g v attr =
     (case v of
        Name i nm \<Rightarrow>
          (case map_of g nm of
             None \<Rightarrow> Inl KeyError
           | Some (IntObj n) \<Rightarrow> Inl TypeError
           | Some (EnumObj members) \<Rightarrow>
               (case map_of members attr of None \<Rightarrow> Inl KeyError | Some n \<Rightarrow> Inr n))
      | _ \<Rightarrow> Inl AttributeError)"

subsection \<open>Call tuples\<close>

text \<open>
  One turn of the loop of \<open>parse_args\<close>. \<open>-node.operand.n\<close> reads the value of a
  constant (a node of another class has no attribute \<open>n\<close>) and negates it.
\<close>

definition parse_arg :: "(string \<times> pyobj) list \<Rightarrow> node \<Rightarrow> error + arg" where
  "parse_arg g node =
     (case node of
        Constant (CInt n) \<Rightarrow> Inr (AInt n)
      | UnaryOp USub operand \<Rightarrow>
          (case operand of
             Constant (CInt n) \<Rightarrow> Inr (AInt (- n))
           | Constant (CBool b) \<Rightarrow> Inr (AInt (if b then - 1 else 0))
           | Constant c \<Rightarrow> Inl TypeError
           | _ \<Rightarrow> Inl AttributeError)
      | Subscript i v sl \<Rightarrow> Inr (ANode node)
      | Name i nm \<Rightarrow> Inr (ANode node)
      | Attribute v attr \<Rightarrow>
          (case globals_lookup g v attr of Inl e \<Rightarrow> Inl e | Inr n \<Rightarrow> Inr (AInt n))
      | _ \<Rightarrow> Inl ESDValueError)"

fun parse_args :: "(string \<times> pyobj) list \<Rightarrow> node list \<Rightarrow> error + arg list" where
  "parse_args g [] = Inr []"
| "parse_args g (node # arg_nodes) =
     (case parse_arg g node of Inl e \<Rightarrow> Inl e
      | Inr a \<Rightarrow>
         (case parse_args g arg_nodes of Inl e \<Rightarrow> Inl e
          | Inr as \<Rightarrow> Inr (a # as)))"

definition is_bool :: "node \<Rightarrow> bool" where
  "is_bool node = (case node of Constant (CBool b) \<Rightarrow> True | _ \<Rightarrow> False)"

definition is_call :: "node \<Rightarrow> bool" where
  "is_call node = (case node of Expr (Call func a kws) \<Rightarrow> True | _ \<Rightarrow> False)"

definition is_state_machine_call :: "node \<Rightarrow> bool" where
  "is_state_machine_call node =
     (case node of
        Expr (Call (Subscript i (Name j nm) (Index (Constant (CInt n)))) a kws) \<Rightarrow>
          nm = ''CALL_STATE_MACHINE''
      | _ \<Rightarrow> False)"

text \<open>
  \<open>get_calls\<close>: the call tuples \<open>(function_name, *args)\<close> of a test, left to right. The
  second function is the loop over the operands of a boolean chain.
\<close>

fun get_calls :: "(string \<times> pyobj) list \<Rightarrow> node \<Rightarrow> error + call list"
  and get_calls_values :: "(string \<times> pyobj) list \<Rightarrow> node list \<Rightarrow> error + call list" where
  "get_calls g node =
     (if is_bool node then Inr []
      else case node of
        Name i nm \<Rightarrow> Inr []
      | Constant (CInt n) \<Rightarrow> Inr []
      | UnaryOp op operand \<Rightarrow>
          (if op \<noteq> NotOp \<and> op \<noteq> USub then Inl ESDSyntaxError else get_calls g operand)
      | BoolOp op vs \<Rightarrow> get_calls_values g vs
      | BinOp left op right \<Rightarrow>
          (case get_calls g left of Inl e \<Rightarrow> Inl e
           | Inr l \<Rightarrow> (case get_calls g right of Inl e \<Rightarrow> Inl e | Inr r \<Rightarrow> Inr (l @ r)))
      | Compare left ops comparators \<Rightarrow>
          (case comparators of
             [comparator] \<Rightarrow>
               (case get_calls g left of Inl e \<Rightarrow> Inl e
                | Inr l \<Rightarrow>
                   (case get_calls g comparator of Inl e \<Rightarrow> Inl e | Inr r \<Rightarrow> Inr (l @ r)))
           | _ \<Rightarrow> Inl ESDSyntaxError)
      | Call func a kws \<Rightarrow>
          (case func of
             Name i function_name \<Rightarrow>
               (case parse_args g a of Inl e \<Rightarrow> Inl e
                | Inr as \<Rightarrow> Inr [(FName function_name, as)])
           | _ \<Rightarrow> Inl AttributeError)
      | _ \<Rightarrow> Inl ESDSyntaxError)"
| "get_calls_values g [] = Inr []"
| "get_calls_values g (v # vs) =
     (case get_calls g v of Inl e \<Rightarrow> Inl e
      | Inr l \<Rightarrow> (case get_calls_values g vs of Inl e \<Rightarrow> Inl e | Inr r \<Rightarrow> Inr (l @ r)))"

declare get_calls.simps(1) [simp del]

subsection \<open>The register planner\<close>

text \<open>
  The loop over \<open>call_list\<close> in \<open>plan_condition_registers\<close>: a call already in
  \<open>state_call_set\<close> is taken for a register while fewer than eight are taken, any other
  call is added to the set. The last argument is \<open>first_time_calls\<close>.
\<close>

fun plan_calls :: "call list \<Rightarrow> compiler \<Rightarrow> call list \<Rightarrow> compiler \<times> call list" where
  "plan_calls [] c first_time_calls = (c, first_time_calls)"
| "plan_calls (call # call_list) c first_time_calls =
     (if call \<in> state_call_set c \<and> to_write_count c < 8
      then plan_calls call_list (c\<lparr>to_write_count := to_write_count c + 1\<rparr>)
             (first_time_calls @ [call])
      else plan_calls call_list (c\<lparr>state_call_set := insert call (state_call_set c)\<rparr>)
             first_time_calls)"

definition is_If :: "node \<Rightarrow> bool" where
  "is_If node = (case node of IfNode t b e \<Rightarrow> True | _ \<Rightarrow> False)"

text \<open>
  The loop over \<open>if_node.body\<close> in \<open>plan_condition_registers\<close>, with
  \<open>subconditions_allowed\<close> and the \<open>subcondition_nodes\<close> collected so far.
\<close>

fun plan_body :: "node list \<Rightarrow> bool \<Rightarrow> node list \<Rightarrow> error + node list" where
  "plan_body [] subconditions_allowed subcondition_nodes = Inr subcondition_nodes"
| "plan_body (body_node # body) subconditions_allowed subcondition_nodes =
     (if \<not> is_If body_node then plan_body body False subcondition_nodes
      else if \<not> subconditions_allowed then Inl ESDSyntaxError
      else plan_body body subconditions_allowed (subcondition_nodes @ [body_node]))"

lemma plan_body_size:
  "plan_body body allowed acc = Inr subs \<Longrightarrow>
     size_list size subs \<le> size_list size acc + size_list size body"
  by (induction body allowed acc rule: plan_body.induct) (auto split: if_splits)

function plan_condition_registers :: "scope \<Rightarrow> node list \<Rightarrow> compiler \<Rightarrow> error + compiler" where
  "plan_condition_registers sc [] c = Inr c"
| "plan_condition_registers sc (if_node # if_node_list) c =
     (case if_node of
        IfNode test body orelse \<Rightarrow>
          (case get_calls (globals sc) test of Inl e \<Rightarrow> Inl e
           | Inr call_list \<Rightarrow>
              (case plan_calls call_list c [] of
                 (c1, first_time_calls) \<Rightarrow>
                   (case plan_body body True [] of Inl e \<Rightarrow> Inl e
                    | Inr subcondition_nodes \<Rightarrow>
                       (case plan_condition_registers sc subcondition_nodes
                               (c1\<lparr>to_write := to_write c1 @ [first_time_calls]\<rparr>) of
                          Inl e \<Rightarrow> Inl e
                        | Inr c2 \<Rightarrow> plan_condition_registers sc if_node_list c2))))
      | _ \<Rightarrow> Inl ESDSyntaxError)"
  by pat_completeness auto
termination
proof (relation "measure (\<lambda>(sc, ns, c). size_list size ns)")
  show "wf (measure (\<lambda>(sc, ns, c). size_list size ns))" by simp
next
  fix sc :: scope and if_node :: node and if_node_list c test body orelse call_list x c1
    first_time_calls subcondition_nodes
  assume "if_node = IfNode test body orelse"
    and "plan_body body True [] = Inr subcondition_nodes"
  then show "((sc, subcondition_nodes, c1\<lparr>to_write := to_write c1 @ [first_time_calls]\<rparr>),
              sc, if_node # if_node_list, c) \<in> measure (\<lambda>(sc, ns, c). size_list size ns)"
    using plan_body_size [of body True "[]" subcondition_nodes] by simp
next
  fix sc :: scope and if_node :: node and if_node_list :: "node list" and c c2 :: compiler
  show "((sc, if_node_list, c2), sc, if_node # if_node_list, c)
          \<in> measure (\<lambda>(sc, ns, c). size_list size ns)"
    by simp
qed

subsection \<open>The expression compiler\<close>

text \<open>The \<open>ast.Name\<close> branch of \<open>compile_ezl\<close>.\<close>

definition compile_name :: "string \<Rightarrow> error + byte list" where
  "compile_name nm =
     (if nm = ''MACHINE_CALL_STATUS'' then Inr [0xb9]
      else if nm = ''ONGOING'' then Inr [0xba]
      else Inl ESDSyntaxError)"

text \<open>The \<open>ast.Subscript\<close> branch of \<open>compile_ezl\<close>, on the value and the slice of the node.\<close>

definition compile_subscript :: "node \<Rightarrow> node \<Rightarrow> error + byte list" where
  "compile_subscript v sl =
     (case v of
        Name j nm \<Rightarrow>
          (if nm = ''MACHINE_ARGS''
           then (case sl of
                   Index (Constant (CInt n)) \<Rightarrow>
                     (case compile_number n of Inl e \<Rightarrow> Inl e | Inr bs \<Rightarrow> Inr (bs @ [0xb8]))
                 | _ \<Rightarrow> Inl ESDSyntaxError)
           else Inl ESDSyntaxError)
      | _ \<Rightarrow> Inl ESDSyntaxError)"

text \<open>
  \<open>compile_ezl(arg)\<close> for an element of the tuple that \<open>parse_args\<close> returned: an
  integer takes the first branch of \<open>compile_ezl\<close>, a node is a name or a subscript
  (\<open>parse_args\<close> stores no other node) and takes the branch of its class. None of these
  branches touches the state of the compiler.
\<close>

definition compile_ezl_arg :: "arg \<Rightarrow> error + byte list" where
  "compile_ezl_arg a =
     (case a of
        AInt n \<Rightarrow> compile_number n
      | ANode (Name i nm) \<Rightarrow> compile_name nm
      | ANode (Subscript i v sl) \<Rightarrow> compile_subscript v sl
      | ANode node \<Rightarrow> Inl TypeError)"

fun compile_ezl_args :: "arg list \<Rightarrow> error + byte list" where
  "compile_ezl_args [] = Inr []"
| "compile_ezl_args (a # as) =
     (case compile_ezl_arg a of Inl e \<Rightarrow> Inl e
      | Inr b \<Rightarrow> (case compile_ezl_args as of Inl e \<Rightarrow> Inl e | Inr bs \<Rightarrow> Inr (b @ bs)))"

text \<open>\<open>next(i for i in range(len(registers)) if not registers[i])\<close>, counted from \<open>i\<close>.\<close>

fun first_empty :: "call option list \<Rightarrow> nat \<Rightarrow> nat option" where
  "first_empty [] i = None"
| "first_empty (r # rs) i = (if r = None then Some i else first_empty rs (Suc i))"

text \<open>\<open>xs.index(x)\<close> for an \<open>x\<close> that is in \<open>xs\<close>.\<close>

definition list_index :: "'a list \<Rightarrow> 'a \<Rightarrow> nat" where
  "list_index xs x = length (takeWhile (\<lambda>y. y \<noteq> x) xs)"

text \<open>\<open>xs.remove(x)\<close>: the first occurrence goes, and there must be one.\<close>

definition list_remove :: "'a list \<Rightarrow> 'a \<Rightarrow> error + 'a list" where
  "list_remove xs x = (if x \<in> set xs then Inr (remove1 x xs) else Inl ValueError)"

text \<open>
  \<open>save_into_next_available_register\<close>: the result is \<open>None\<close> when the loop ends
  without finding an empty register.
\<close>

definition save_into_next_available_register ::
  "call \<Rightarrow> compiler \<Rightarrow> error + compiler \<times> byte list option" where
  "save_into_next_available_register call c =
     (case first_empty (registers c) 0 of
        None \<Rightarrow> Inr (c, None)
      | Some i \<Rightarrow>
          (case list_remove (current_to_write c) call of Inl e \<Rightarrow> Inl e
           | Inr ctw \<Rightarrow>
              (case pack_B (int i + 167) of Inl e \<Rightarrow> Inl e
               | Inr b \<Rightarrow>
                  Inr (c\<lparr>registers := (registers c)[i := Some call], current_to_write := ctw\<rparr>,
                       Some b))))"

text \<open>The function id of \<open>compile_test_function\<close>: the table, then the default name.\<close>

definition test_function_id :: "env \<Rightarrow> node \<Rightarrow> error + int" where
  "test_function_id ev func =
     (case func of
        Name i nm \<Rightarrow>
          (case TEST_FUNCTIONS_ID_BY_TYPE_NAME ev nm of
             Some f \<Rightarrow> Inr f
           | None \<Rightarrow>
               (case TEST_DEFAULT_RE nm of None \<Rightarrow> Inl ESDValueError | Some ds \<Rightarrow> py_int ds))
      | _ \<Rightarrow> Inl AttributeError)"

definition equals_suffix :: "int option \<Rightarrow> error + byte list" where
  "equals_suffix equals =
     (case equals of
        None \<Rightarrow> Inr []
      | Some n \<Rightarrow>
          (if n = 0 then Inr [0x40, 0x95]
           else if n = 1 then Inr [0x41, 0x95]
           else Inl ValueError))"

text \<open>
  The part of \<open>compile_test_function\<close> under \<open>if call in self.current_to_write\<close>: the
  register is taken (and the call removed from the list there), the opcode of the
  store is appended, and the call is removed from the list again.
\<close>

definition store_if_queued ::
  "call \<Rightarrow> byte list \<Rightarrow> compiler \<Rightarrow> error + compiler \<times> byte list" where
  "store_if_queued call compiled c =
     (if call \<in> set (current_to_write c)
      then (case save_into_next_available_register call c of Inl e \<Rightarrow> Inl e
            | Inr (c1, None) \<Rightarrow> Inl TypeError
            | Inr (c1, Some b) \<Rightarrow>
               (case list_remove (current_to_write c1) call of Inl e \<Rightarrow> Inl e
                | Inr ctw \<Rightarrow> Inr (c1\<lparr>current_to_write := ctw\<rparr>, compiled @ b)))
      else Inr (c, compiled))"

definition compile_test_function ::
  "env \<Rightarrow> scope \<Rightarrow> node \<Rightarrow> int option \<Rightarrow> compiler \<Rightarrow> error + compiler \<times> byte list"
  where
  "compile_test_function ev sc call_node equals c =
     (case call_node of
        Call func a kws \<Rightarrow>
          (if kws \<noteq> [] then Inl ESDSyntaxError
           else case test_function_id ev func of Inl e \<Rightarrow> Inl e
           | Inr f_id \<Rightarrow>
           (case parse_args (globals sc) a of Inl e \<Rightarrow> Inl e
           | Inr as \<Rightarrow>
           (if Some (FId f_id, as) \<in> set (registers c)
            then (case pack_B (int (list_index (registers c) (Some (FId f_id, as))) + 175) of
                    Inl e \<Rightarrow> Inl e
                  | Inr b \<Rightarrow> Inr (c, b))
            else case compile_number f_id of Inl e \<Rightarrow> Inl e
            | Inr idb \<Rightarrow>
            (case compile_ezl_args as of Inl e \<Rightarrow> Inl e
            | Inr argb \<Rightarrow>
            (case FUNCTION_ARG_BYTES_BY_COUNT ev (length as) of None \<Rightarrow> Inl LookupError
            | Some cnt \<Rightarrow>
            (case store_if_queued (FId f_id, as) (idb @ argb @ cnt) c of Inl e \<Rightarrow> Inl e
            | Inr (c1, compiled) \<Rightarrow>
            (case equals_suffix equals of Inl e \<Rightarrow> Inl e
            | Inr suffix \<Rightarrow> Inr (c1, compiled @ suffix))))))))
      | _ \<Rightarrow> Inl AttributeError)"

text \<open>
  \<open>compile_ezl\<close> on a node. The second function is the loop of the \<open>ast.BoolOp\<close> branch
  over \<open>enumerate(node.values)\<close> from index \<open>i\<close> on; \<open>is_and\<close> is
  \<open>isinstance(node.op, ast.And)\<close>.
\<close>

fun compile_ezl :: "env \<Rightarrow> scope \<Rightarrow> node \<Rightarrow> compiler \<Rightarrow> error + compiler \<times> byte list"
  and compile_values ::
    "env \<Rightarrow> scope \<Rightarrow> bool \<Rightarrow> nat \<Rightarrow> node list \<Rightarrow> compiler
       \<Rightarrow> error + compiler \<times> byte list" where
  "compile_ezl ev sc node c =
     (case node of
        Constant (CInt n) \<Rightarrow>
          (case compile_number n of Inl e \<Rightarrow> Inl e | Inr b \<Rightarrow> Inr (c, b))
      | Constant (CStr s) \<Rightarrow> Inr (c, compile_string s)
      | UnaryOp op operand \<Rightarrow>
          (case op of
             USub \<Rightarrow>
               (case operand of
                  Constant (CInt n) \<Rightarrow>
                    (case compile_number (- n) of Inl e \<Rightarrow> Inl e | Inr b \<Rightarrow> Inr (c, b))
                | _ \<Rightarrow> Inl ESDSyntaxError)
           | NotOp \<Rightarrow>
               (if is_call operand then compile_test_function ev sc operand (Some 1) c
                else Inl ESDSyntaxError)
           | _ \<Rightarrow> Inl TypeError)
      | BoolOp op vs \<Rightarrow> compile_values ev sc (op = And) 0 vs c
      | BinOp left op right \<Rightarrow>
          (case OPERATORS_BY_NODE ev op of None \<Rightarrow> Inl ESDSyntaxError
           | Some opb \<Rightarrow>
              (case compile_ezl ev sc left c of Inl e \<Rightarrow> Inl e
               | Inr (c1, l) \<Rightarrow>
                  (case compile_ezl ev sc right c1 of Inl e \<Rightarrow> Inl e
                   | Inr (c2, r) \<Rightarrow> Inr (c2, l @ r @ opb))))
      | Compare left ops comparators \<Rightarrow>
          (case comparators of
             [comparator] \<Rightarrow>
               (case ops of
                  [op] \<Rightarrow>
                    (case OPERATORS_BY_NODE ev op of None \<Rightarrow> Inl ESDSyntaxError
                     | Some opb \<Rightarrow>
                        (case compile_ezl ev sc left c of Inl e \<Rightarrow> Inl e
                         | Inr (c1, l) \<Rightarrow>
                            (case compile_ezl ev sc comparator c1 of Inl e \<Rightarrow> Inl e
                             | Inr (c2, r) \<Rightarrow> Inr (c2, l @ r @ opb))))
                | _ \<Rightarrow> Inl ESDSyntaxError)
           | _ \<Rightarrow> Inl ESDSyntaxError)
      | Call func a kws \<Rightarrow> compile_test_function ev sc node None c
      | Name i nm \<Rightarrow> (case compile_name nm of Inl e \<Rightarrow> Inl e | Inr b \<Rightarrow> Inr (c, b))
      | Subscript i v sl \<Rightarrow>
          (case compile_subscript v sl of Inl e \<Rightarrow> Inl e | Inr b \<Rightarrow> Inr (c, b))
      | Attribute v attr \<Rightarrow>
          (case globals_lookup (globals sc) v attr of Inl e \<Rightarrow> Inl e
           | Inr n \<Rightarrow> (case compile_number n of Inl e \<Rightarrow> Inl e | Inr b \<Rightarrow> Inr (c, b)))
      | _ \<Rightarrow> Inl TypeError)"
| "compile_values ev sc is_and i [] c = Inr (c, [])"
| "compile_values ev sc is_and i (v # vs) c =
     (case compile_ezl ev sc v c of Inl e \<Rightarrow> Inl e
      | Inr (c1, b) \<Rightarrow>
         (case compile_values ev sc is_and (Suc i) vs c1 of Inl e \<Rightarrow> Inl e
          | Inr (c2, rest) \<Rightarrow>
             Inr (c2,
               b @ [if is_and \<and> current_to_write c1 = [] then 0xb7 else 0xa6]
                 @ (if i > 0 then [if is_and then 0x98 else 0x99] else [])
                 @ rest)))"

declare compile_ezl.simps(1) [simp del]

subsection \<open>Commands\<close>

text \<open>The bank and the function id of \<open>build_command\<close>.\<close>

definition command_bank_id :: "env \<Rightarrow> node \<Rightarrow> error + int \<times> int" where
  "command_bank_id ev node =
     (if is_state_machine_call node
      then (case node of
              Expr (Call (Subscript i v (Index (Constant (CInt n)))) a kws) \<Rightarrow>
                Inr (6, 0x80000000 - n)
            | _ \<Rightarrow> Inl AttributeError)
      else if is_call node
      then (case node of
              Expr (Call (Name i nm) a kws) \<Rightarrow>
                (case COMMANDS_BANK_ID_BY_TYPE_NAME ev nm of
                   Some bank_id \<Rightarrow> Inr bank_id
                 | None \<Rightarrow>
                     (case COMMAND_DEFAULT_RE nm of
                        None \<Rightarrow> Inl ESDError
                      | Some (bank, f_id) \<Rightarrow>
                          (case py_int bank of Inl e \<Rightarrow> Inl e
                           | Inr b \<Rightarrow>
                              (case py_int f_id of Inl e \<Rightarrow> Inl e | Inr f \<Rightarrow> Inr (b, f)))))
            | _ \<Rightarrow> Inl ESDError)
      else Inl ESDSyntaxError)"

text \<open>\<open>[self.compile_ezl(arg) + b"\xa1" for arg in args]\<close>\<close>

fun compile_command_args ::
  "env \<Rightarrow> scope \<Rightarrow> node list \<Rightarrow> compiler \<Rightarrow> error + compiler \<times> byte list list" where
  "compile_command_args ev sc [] c = Inr (c, [])"
| "compile_command_args ev sc (a # as) c =
     (case compile_ezl ev sc a c of Inl e \<Rightarrow> Inl e
      | Inr (c1, b) \<Rightarrow>
         (case compile_command_args ev sc as c1 of Inl e \<Rightarrow> Inl e
          | Inr (c2, bs) \<Rightarrow> Inr (c2, (b @ [0xa1]) # bs)))"

definition build_command ::
  "env \<Rightarrow> scope \<Rightarrow> node \<Rightarrow> compiler \<Rightarrow> error + compiler \<times> Command" where
  "build_command ev sc node c =
     (case command_bank_id ev node of Inl e \<Rightarrow> Inl e
      | Inr (bank, f_id) \<Rightarrow>
         (case node of
            Expr (Call func a kws) \<Rightarrow>
              (case compile_command_args ev sc (a @ map snd kws) c of Inl e \<Rightarrow> Inl e
               | Inr (c1, command_args) \<Rightarrow> Inr (c1, Command bank f_id command_args))
          | _ \<Rightarrow> Inl AttributeError))"

text \<open>\<open>[self.build_command(command_node) for command_node in node.body]\<close>\<close>

fun build_commands ::
  "env \<Rightarrow> scope \<Rightarrow> node list \<Rightarrow> compiler \<Rightarrow> error + compiler \<times> Command list" where
  "build_commands ev sc [] c = Inr (c, [])"
| "build_commands ev sc (command_node # body) c =
     (case build_command ev sc command_node c of Inl e \<Rightarrow> Inl e
      | Inr (c1, cmd) \<Rightarrow>
         (case build_commands ev sc body c1 of Inl e \<Rightarrow> Inl e
          | Inr (c2, cmds) \<Rightarrow> Inr (c2, cmd # cmds)))"

subsection \<open>Conditions\<close>

text \<open>
  The first branch of \<open>build_conditions\<close>, for a test that is one \<open>return\<close>, on the value
  of the statement. \<open>operand.value == 1\<close> holds for the integer 1 and for \<open>True\<close>.
\<close>

definition lone_return :: "scope \<Rightarrow> node option \<Rightarrow> error + Condition list" where
  "lone_return sc v =
     (case v of
        Some (UnaryOp op operand) \<Rightarrow>
          (if op = USub \<and> (operand = Constant (CInt 1) \<or> operand = Constant (CBool True))
           then Inr [Condition (- 1) [0x41, 0xa1] [] []]
           else Inl ESDSyntaxError)
      | Some (Name i nm) \<Rightarrow>
          (case map_of (state_info sc) nm of
             None \<Rightarrow> Inl ESDError
           | Some entry \<Rightarrow> Inr [Condition (entry_index entry) [0x41, 0xa1] [] []])
      | _ \<Rightarrow> Inl ESDSyntaxError)"

text \<open>
  The loop \<open>for i, node in enumerate(if_nodes)\<close> of \<open>build_conditions\<close>, from index \<open>i\<close>
  on. The list grows while the loop runs over it: an \<open>else\<close> block of the last node is
  appended as a node of its own, which the loop then visits as well.
\<close>

definition has_orelse :: "node \<Rightarrow> bool" where
  "has_orelse node = (case node of IfNode t b orelse \<Rightarrow> orelse \<noteq> [] | _ \<Rightarrow> False)"

function else_loop :: "nat \<Rightarrow> node list \<Rightarrow> error + node list" where
  "else_loop i if_nodes =
     (if i < length if_nodes
      then (case if_nodes ! i of
              IfNode test body orelse \<Rightarrow>
                (if orelse \<noteq> []
                 then (if i \<noteq> length if_nodes - 1 then Inl ESDSyntaxError
                       else else_loop (Suc i)
                              (if_nodes @ [IfNode (Constant (CInt 1)) orelse []]))
                 else else_loop (Suc i) if_nodes)
            | _ \<Rightarrow> Inl ESDSyntaxError)
      else Inr if_nodes)"
  by pat_completeness auto
termination
proof (relation "measures [\<lambda>(i, ns). length (filter has_orelse (drop i ns)),
                            \<lambda>(i, ns). length ns - i]", goal_cases)
  case 1
  show ?case by simp
next
  case (2 i if_nodes test body orelse)
  then have "drop i if_nodes = [if_nodes ! i]"
    by (metis Cons_nth_drop_Suc Suc_diff_1 drop_all le_refl length_greater_0_conv list.size(3) not_less0)
  with 2 show ?case by (simp add: has_orelse_def)
next
  case (3 i if_nodes test body orelse)
  from 3(1) have "drop i if_nodes = if_nodes ! i # drop (Suc i) if_nodes"
    by (rule Cons_nth_drop_Suc [symmetric])
  with 3 show ?case by (simp add: has_orelse_def)
qed

declare else_loop.simps [simp del]

text \<open>
  The value of a \<open>return\<close> that ends the body of an \<open>if\<close> block: \<open>next_state_index\<close>.
  \<open>node.value.n == -1\<close> is asked of a constant only.
\<close>

definition return_index :: "scope \<Rightarrow> node option \<Rightarrow> error + int" where
  "return_index sc v =
     (case v of
        Some (Constant k) \<Rightarrow> (if k = CInt (- 1) then Inr (- 1) else Inl ESDSyntaxError)
      | Some (Name i nm) \<Rightarrow>
          (case map_of (state_info sc) nm of
             None \<Rightarrow> Inl ESDError
           | Some entry \<Rightarrow> Inr (entry_index entry))
      | _ \<Rightarrow> Inl ESDSyntaxError)"

text \<open>
  The loop over \<open>if_node.body\<close> in \<open>build_conditions\<close>, with \<open>pass_commands_allowed\<close>
  and the three values it collects: \<open>pass_commands\<close>, \<open>subcondition_nodes\<close> and
  \<open>next_state_index\<close>. (\<open>subconditions_allowed\<close> is never set to \<open>False\<close>.) A statement
  of any other kind is passed over.
\<close>

fun body_loop ::
  "env \<Rightarrow> scope \<Rightarrow> node list \<Rightarrow> bool \<Rightarrow> Command list \<times> node list \<times> int \<Rightarrow> compiler
     \<Rightarrow> error + compiler \<times> Command list \<times> node list \<times> int" where
  "body_loop ev sc [] pass_commands_allowed acc c = Inr (c, acc)"
| "body_loop ev sc (node # body) pass_commands_allowed
       (pass_commands, subcondition_nodes, next_state_index) c =
     (if is_call node
      then (if \<not> pass_commands_allowed then Inl ESDSyntaxError
            else case build_command ev sc node c of Inl e \<Rightarrow> Inl e
            | Inr (c1, cmd) \<Rightarrow>
               body_loop ev sc body pass_commands_allowed
                 (pass_commands @ [cmd], subcondition_nodes, next_state_index) c1)
      else if is_If node
      then body_loop ev sc body False
             (pass_commands, subcondition_nodes @ [node], next_state_index) c
      else case node of
        Return v \<Rightarrow>
          (if body \<noteq> [] then Inl ESDSyntaxError
           else case return_index sc v of Inl e \<Rightarrow> Inl e
           | Inr n \<Rightarrow>
              body_loop ev sc body pass_commands_allowed
                (pass_commands, subcondition_nodes, n) c)
      | _ \<Rightarrow>
          body_loop ev sc body pass_commands_allowed
            (pass_commands, subcondition_nodes, next_state_index) c)"

text \<open>The nesting depth of \<open>if\<close> blocks, by which the recursion of \<open>build_conditions\<close> ends.\<close>

fun depth :: "node \<Rightarrow> nat" where
  "depth (IfNode t b e) =
     Suc (max (foldr max (map depth b) 0) (foldr max (map depth e) 0))"
| "depth node = 0"

definition depths :: "node list \<Rightarrow> nat" where
  "depths ns = foldr max (map depth ns) 0"

lemma depths_simps [simp]:
  "depths [] = 0"
  "depths (n # ns) = max (depth n) (depths ns)"
  "depths (ns @ ms) = max (depths ns) (depths ms)"
  by (induction ns) (auto simp: depths_def)

lemma depth_IfNode: "depth (IfNode t b e) = Suc (max (depths b) (depths e))"
  by (simp add: depths_def)

lemma depth_nth_le: "i < length ns \<Longrightarrow> depth (ns ! i) \<le> depths ns"
  by (induction ns arbitrary: i) (auto simp: nth_Cons split: nat.splits intro: le_max_iff_disj[THEN iffD2])

lemma else_loop_depths: "else_loop i ns = Inr ns' \<Longrightarrow> depths ns' = depths ns"
proof (induction i ns rule: else_loop.induct)
  case (1 i if_nodes)
  show ?case
  proof (cases "i < length if_nodes")
    case False
    with 1(3) show ?thesis by (simp add: else_loop.simps)
  next
    case True
    then obtain test body orelse where n: "if_nodes ! i = IfNode test body orelse"
      using 1(3) by (subst (asm) else_loop.simps) (auto split: node.splits)
    show ?thesis
    proof (cases "orelse = []")
      case True
      with 1(2) [OF \<open>i < length if_nodes\<close> n] 1(3) n \<open>i < length if_nodes\<close> show ?thesis
        by (subst (asm) else_loop.simps) simp
    next
      case False
      with 1(3) n \<open>i < length if_nodes\<close>
      have last: "i = length if_nodes - 1"
        and r: "else_loop (Suc i) (if_nodes @ [IfNode (Constant (CInt 1)) orelse []]) = Inr ns'"
        by (subst (asm) else_loop.simps, simp split: if_splits)+
      have "depths ns' = depths (if_nodes @ [IfNode (Constant (CInt 1)) orelse []])"
        using 1(1) [OF \<open>i < length if_nodes\<close> n False _ r] last by simp
      moreover have "depth (IfNode (Constant (CInt 1)) orelse []) \<le> depth (if_nodes ! i)"
        by (simp add: n depth_IfNode)
      ultimately show ?thesis
        using depth_nth_le [OF \<open>i < length if_nodes\<close>] by (simp add: max_def)
    qed
  qed
qed

lemma body_loop_depths:
  "body_loop ev sc body allowed acc c = Inr (c', acc') \<Longrightarrow>
     depths (fst (snd acc')) \<le> max (depths (fst (snd acc))) (depths body)"
proof (induction body arbitrary: allowed acc c)
  case Nil
  then show ?case by simp
next
  case (Cons node body)
  obtain pc subs nsi where acc: "acc = (pc, subs, nsi)" by (cases acc)
  show ?case
  proof (cases "is_call node")
    case True
    with Cons.prems acc obtain c1 cmd where
      "body_loop ev sc body allowed (pc @ [cmd], subs, nsi) c1 = Inr (c', acc')"
      by (auto split: if_splits sum.splits)
    from Cons.IH [OF this] show ?thesis by (simp add: acc)
  next
    case nc: False
    show ?thesis
    proof (cases "is_If node")
      case True
      with nc Cons.prems acc
      have "body_loop ev sc body False (pc, subs @ [node], nsi) c = Inr (c', acc')" by simp
      from Cons.IH [OF this] show ?thesis by (simp add: acc)
    next
      case False
      with nc Cons.prems acc obtain n where
        "body_loop ev sc body allowed (pc, subs, n) c = Inr (c', acc')"
        by (auto split: if_splits sum.splits node.splits)
      from Cons.IH [OF this] show ?thesis by (simp add: acc)
    qed
  qed
qed

text \<open>
  \<open>build_conditions\<close>. The list \<open>if_nodes\<close> is the caller's own and is changed in place,
  so the function returns it first, as it is when the call ends, and the conditions (or
  the error) second. \<open>lone_return_value\<close> is the test
  \<open>len(if_nodes) == 1 and isinstance(if_nodes[0], ast.Return)\<close>, with the value of that
  statement. The second function is the loop \<open>for if_node in if_nodes\<close>;
  \<open>self.to_write.get()\<close> takes the head of the queue.
\<close>

definition lone_return_value :: "node list \<Rightarrow> node option option" where
  "lone_return_value if_nodes = (case if_nodes of [Return v] \<Rightarrow> Some v | _ \<Rightarrow> None)"

function build_conditions ::
    "env \<Rightarrow> scope \<Rightarrow> node list \<Rightarrow> compiler
       \<Rightarrow> node list \<times> (error + compiler \<times> Condition list)"
  and build_loop ::
    "env \<Rightarrow> scope \<Rightarrow> node list \<Rightarrow> compiler \<Rightarrow> error + compiler \<times> Condition list" where
  "build_conditions ev sc if_nodes c =
     (case lone_return_value if_nodes of
        Some v \<Rightarrow>
          (if_nodes,
           case lone_return sc v of Inl e \<Rightarrow> Inl e | Inr conditions \<Rightarrow> Inr (c, conditions))
      | None \<Rightarrow>
          (case else_loop 0 if_nodes of
             Inl e \<Rightarrow> (if_nodes, Inl e)
           | Inr if_nodes' \<Rightarrow>
               (if_nodes',
                case plan_condition_registers sc if_nodes' c of Inl e \<Rightarrow> Inl e
                | Inr c1 \<Rightarrow> build_loop ev sc if_nodes' c1)))"
| "build_loop ev sc [] c = Inr (c, [])"
| "build_loop ev sc (if_node # if_nodes) c =
     (case to_write c of
        [] \<Rightarrow> Inl Blocked
      | entry # queue \<Rightarrow>
          (case if_node of
             IfNode test body orelse \<Rightarrow>
               (case compile_ezl ev sc test (c\<lparr>to_write := queue, current_to_write := entry\<rparr>) of
                  Inl e \<Rightarrow> Inl e
                | Inr (c1, test_ezl) \<Rightarrow>
                   (case body_loop ev sc body True ([], [], - 1) c1 of Inl e \<Rightarrow> Inl e
                    | Inr (c2, pass_commands, subcondition_nodes, next_state_index) \<Rightarrow>
                       (case (if subcondition_nodes \<noteq> []
                              then snd (build_conditions ev sc subcondition_nodes c2)
                              else Inr (c2, [])) of
                          Inl e \<Rightarrow> Inl e
                        | Inr (c3, subconditions) \<Rightarrow>
                           (case build_loop ev sc if_nodes c3 of Inl e \<Rightarrow> Inl e
                            | Inr (c4, conditions) \<Rightarrow>
                               Inr (c4,
                                 Condition next_state_index (test_ezl @ [0xa1]) pass_commands
                                   subconditions # conditions)))))
           | _ \<Rightarrow> Inl AttributeError))"
  by pat_completeness auto
termination
proof (relation "measures
    [\<lambda>x. case x of Inl (ev, sc, ns, c) \<Rightarrow> depths ns | Inr (ev, sc, ns, c) \<Rightarrow> depths ns,
     \<lambda>x. case x of Inl (ev, sc, ns, c) \<Rightarrow> 1 | Inr (ev, sc, ns, c) \<Rightarrow> 0,
     \<lambda>x. case x of Inl (ev, sc, ns, c) \<Rightarrow> 0 | Inr (ev, sc, ns, c) \<Rightarrow> length ns]",
    goal_cases)
  case 1
  show ?case by simp
next
  case 2 then show ?case by (simp add: else_loop_depths)
next
  case (3 ev sc if_node if_nodes c entry queue test body orelse x2 c1 test_ezl x2a c2 y
          pass_commands ya subcondition_nodes next_state_index)
  have "depths subcondition_nodes \<le> depths body"
    using 3 body_loop_depths [of ev sc body True "([], [], - 1)" c1 c2
                 "(pass_commands, subcondition_nodes, next_state_index)"]
    by auto
  then show ?case using 3(2) by (simp add: depth_IfNode del: depth.simps)
next
  case 4
  then show ?case by (auto simp: max_def simp del: depth.simps)
qed

declare build_conditions.simps [simp del]

subsection \<open>States and the script\<close>

text \<open>
  The loop of \<open>build_state\<close> over the methods of a state class, with the four lists it has
  collected. A list counts as defined when it is not empty; the last branch reads
  \<open>node.name.id\<close>, and a string has no attribute \<open>id\<close>.
\<close>

fun build_state_loop ::
  "env \<Rightarrow> scope \<Rightarrow> node list
     \<Rightarrow> Condition list \<times> Command list \<times> Command list \<times> Command list \<Rightarrow> compiler
     \<Rightarrow> error + compiler \<times> Condition list \<times> Command list \<times> Command list \<times> Command list"
  where
  "build_state_loop ev sc [] acc c = Inr (c, acc)"
| "build_state_loop ev sc (node # nodes)
       (conditions, enter_commands, exit_commands, ongoing_commands) c =
     (case node of
        FunctionDef name body \<Rightarrow>
          (if name = ''previous_states''
           then build_state_loop ev sc nodes
                  (conditions, enter_commands, exit_commands, ongoing_commands) c
           else if name = ''test''
           then (if conditions \<noteq> [] then Inl ESDSyntaxError
                 else case snd (build_conditions ev sc body c) of Inl e \<Rightarrow> Inl e
                 | Inr (c1, conds) \<Rightarrow>
                    build_state_loop ev sc nodes
                      (conds, enter_commands, exit_commands, ongoing_commands) c1)
           else if name = ''enter''
           then (if enter_commands \<noteq> [] then Inl ESDSyntaxError
                 else case build_commands ev sc body c of Inl e \<Rightarrow> Inl e
                 | Inr (c1, cmds) \<Rightarrow>
                    build_state_loop ev sc nodes
                      (conditions, cmds, exit_commands, ongoing_commands) c1)
           else if name = ''exit''
           then (if exit_commands \<noteq> [] then Inl ESDSyntaxError
                 else case build_commands ev sc body c of Inl e \<Rightarrow> Inl e
                 | Inr (c1, cmds) \<Rightarrow>
                    build_state_loop ev sc nodes
                      (conditions, enter_commands, cmds, ongoing_commands) c1)
           else if name = ''ongoing''
           then (if ongoing_commands \<noteq> [] then Inl ESDSyntaxError
                 else case build_commands ev sc body c of Inl e \<Rightarrow> Inl e
                 | Inr (c1, cmds) \<Rightarrow>
                    build_state_loop ev sc nodes
                      (conditions, enter_commands, exit_commands, cmds) c1)
           else Inl AttributeError)
      | _ \<Rightarrow> Inl ESDSyntaxError)"

definition build_state ::
  "env \<Rightarrow> scope \<Rightarrow> int \<Rightarrow> node list \<Rightarrow> compiler \<Rightarrow> error + compiler \<times> State" where
  "build_state ev sc idx nodes c =
     (case build_state_loop ev sc nodes ([], [], [], []) c of Inl e \<Rightarrow> Inl e
      | Inr (c1, conditions, enter_commands, exit_commands, ongoing_commands) \<Rightarrow>
         Inr (c1, State idx conditions enter_commands exit_commands ongoing_commands))"

text \<open>\<open>ast.get_docstring\<close> on the body of a class.\<close>

definition get_docstring :: "env \<Rightarrow> node list \<Rightarrow> string option" where
  "get_docstring ev body =
     (case body of
        Expr (Constant (CStr text)) # rest \<Rightarrow> Some (cleandoc ev text)
      | _ \<Rightarrow> None)"

text \<open>
  \<open>scan_state\<close>: \<open>self.state_info[state_name] = ...\<close> keeps the place of a name that the
  dict already has and puts a new name last.
\<close>

definition scan_state :: "env \<Rightarrow> node \<Rightarrow> scope \<Rightarrow> error + scope" where
  "scan_state ev node sc =
     (case node of
        ClassDef state_name body \<Rightarrow>
          (case get_docstring ev body of
             None \<Rightarrow> Inl ESDSyntaxError
           | Some docstring \<Rightarrow>
               (case STATE_DOCSTRING_RE docstring of
                  None \<Rightarrow> Inl ESDSyntaxError
                | Some state_index \<Rightarrow>
                    (case py_int state_index of Inl e \<Rightarrow> Inl e
                     | Inr idx \<Rightarrow>
                        Inr (sc\<lparr>state_info :=
                                AList.update state_name (StateEntry idx (drop 1 body))
                                  (state_info sc)\<rparr>))))
      | _ \<Rightarrow> Inl AttributeError)"

text \<open>The first loop of \<open>compile_script\<close>, over the statements it is given.\<close>

fun scan_nodes :: "env \<Rightarrow> node list \<Rightarrow> scope \<Rightarrow> error + scope" where
  "scan_nodes ev [] sc = Inr sc"
| "scan_nodes ev (node # nodes) sc =
     (case node of
        Import \<Rightarrow> Inl ESDSyntaxError
      | ImportFrom module names level \<Rightarrow>
          (case import_from ev module names level (globals sc) of Inl e \<Rightarrow> Inl e
           | Inr g \<Rightarrow> scan_nodes ev nodes (sc\<lparr>globals := g\<rparr>))
      | ClassDef state_name body \<Rightarrow>
          (case scan_state ev node sc of Inl e \<Rightarrow> Inl e
           | Inr sc1 \<Rightarrow> scan_nodes ev nodes sc1)
      | _ \<Rightarrow> Inl ESDSyntaxError)"

text \<open>
  The second loop of \<open>compile_script\<close>, over \<open>self.state_info.values()\<close>:
  \<open>self.states[state["index"]] = self.build_state(...)\<close>. The dict \<open>self.states\<close> is the
  first component of the state of the loop; an assignment to a key that the dict has
  replaces the value there.
\<close>

fun build_states ::
  "env \<Rightarrow> scope \<Rightarrow> state_entry list \<Rightarrow> (int \<times> State) list \<times> compiler
     \<Rightarrow> error + (int \<times> State) list \<times> compiler" where
  "build_states ev sc [] (states, c) = Inr (states, c)"
| "build_states ev sc (state # rest) (states, c) =
     (case build_state ev sc (entry_index state) (entry_nodes state) c of Inl e \<Rightarrow> Inl e
      | Inr (c1, st) \<Rightarrow>
         build_states ev sc rest (AList.update (entry_index state) st states, c1))"

text \<open>
  \<open>compile_script\<close> on \<open>self.tree.body\<close>, for the compiler that \<open>__init__\<close> has set up.
  The first loop runs over \<open>self.tree.body[1:]\<close>. The result is \<open>self.states\<close> and the
  condition state that is left.
\<close>

definition compile_script :: "env \<Rightarrow> node list \<Rightarrow> error + (int \<times> State) list \<times> compiler" where
  "compile_script ev tree_body =
     (case scan_nodes ev (drop 1 tree_body) \<lparr>globals = [], state_info = []\<rparr> of
        Inl e \<Rightarrow> Inl e
      | Inr sc \<Rightarrow> build_states ev sc (map snd (state_info sc)) ([], init_compiler))"

section \<open>Example scripts\<close>

text \<open>
  A sample of the external tables: four test functions, no commands, the bytes that end
  a call of zero, one and two arguments, and one operator. The tables themselves are in
  \<open>functions.py\<close> and \<open>ezl_parser.py\<close>, which are not part of the compiler; the values
  here stand in for them in the examples.
\<close>

definition sample_env :: env where
  "sample_env =
     \<lparr> TEST_FUNCTIONS_ID_BY_TYPE_NAME = map_of [(''A'', 1), (''B'', 2), (''F'', 5), (''G'', 6)],
       COMMANDS_BANK_ID_BY_TYPE_NAME = map_of [],
       FUNCTION_ARG_BYTES_BY_COUNT = map_of [(0, [0x84]), (1, [0x85]), (2, [0x86])],
       OPERATORS_BY_NODE = map_of [(Eq, [0x95])],
       import_from = (\<lambda>module names level g. Inr g),
       cleandoc = (\<lambda>text. text) \<rparr>"

text \<open>A scope with one state class, \<open>S\<close>, numbered 7.\<close>

definition sample_scope :: scope where
  "sample_scope = \<lparr> globals = [], state_info = [(''S'', StateEntry 7 [])] \<rparr>"

text \<open>The expressions \<open>F(1)\<close> and \<open>G(1)\<close> and the statement \<open>return S\<close>, as the node objects \<open>i\<close>.\<close>

definition call_F_1 :: "nat \<Rightarrow> node" where
  "call_F_1 i = Call (Name i ''F'') [Constant (CInt 1)] []"

definition call_G_1 :: "nat \<Rightarrow> node" where
  "call_G_1 i = Call (Name i ''G'') [Constant (CInt 1)] []"

definition return_S :: "nat \<Rightarrow> node" where
  "return_S i = Return (Some (Name i ''S''))"

text \<open>
  \<^verbatim>\<open>if F(1): return S\<close> three times over.
\<close>

definition three_F_test :: "node list" where
  "three_F_test =
     [IfNode (call_F_1 0) [return_S 1] [],
      IfNode (call_F_1 2) [return_S 3] [],
      IfNode (call_F_1 4) [return_S 5] []]"

text \<open>
  \<^verbatim>\<open>if F(1):\<close> with the one statement \<^verbatim>\<open>if G(1): return S\<close> inside.
\<close>

definition nested_test :: "node list" where
  "nested_test = [IfNode (call_F_1 0) [IfNode (call_G_1 1) [return_S 2] []] []]"

text \<open>
  The block \<^verbatim>\<open>if A() and B(): return S\<close>, as the node objects from \<open>i\<close> on, and a test of
  two blocks: \<^verbatim>\<open>if F(1):\<close> with the one statement \<^verbatim>\<open>if G(1): return S\<close>
  \<^verbatim>\<open>else: return S\<close> inside, and then that block. No call occurs twice in it.
\<close>

definition A_and_B :: "nat \<Rightarrow> node" where
  "A_and_B i =
     IfNode (BoolOp And [Call (Name i ''A'') [] [], Call (Name (i + 1) ''B'') [] []])
       [return_S (i + 2)] []"

definition nested_else_test :: "node list" where
  "nested_else_test =
     [IfNode (call_F_1 0) [IfNode (call_G_1 1) [return_S 2] [return_S 3]] [],
      A_and_B 4]"

text \<open>
  \<^verbatim>\<open>if F(1): return S\<close> followed by \<^verbatim>\<open>else: return S\<close>.
\<close>

definition else_test :: "node list" where
  "else_test = [IfNode (call_F_1 0) [return_S 1] [return_S 2]]"

text \<open>
  \<^verbatim>\<open>if F(1) and G(1): return S1\<close>, a state class with a docstring and a \<open>test\<close> method, and
  three scripts: two states with that same test, the second of them alone, and two
  states that both carry the number 0. Each script starts with a docstring.
\<close>

definition and_test :: "nat \<Rightarrow> node list" where
  "and_test i =
     [IfNode (BoolOp And [call_F_1 i, call_G_1 (i + 1)]) [Return (Some (Name (i + 2) ''S1''))] []]"

definition state_class :: "string \<Rightarrow> string \<Rightarrow> node list \<Rightarrow> node" where
  "state_class name docstring test_body =
     ClassDef name [Expr (Constant (CStr docstring)), FunctionDef ''test'' test_body]"

definition two_state_script :: "node list" where
  "two_state_script =
     [Expr (Constant (CStr ''Two states with the same test.'')),
      state_class ''S0'' ''0'' (and_test 0),
      state_class ''S1'' ''1'' (and_test 10)]"

definition one_state_script :: "node list" where
  "one_state_script =
     [Expr (Constant (CStr ''The second state alone.'')),
      state_class ''S1'' ''1'' (and_test 10)]"

definition first_entry :: state_entry where
  "first_entry = StateEntry 0 [FunctionDef ''test'' [Return (Some (UnaryOp USub (Constant (CInt 1))))]]"

definition second_entry :: state_entry where
  "second_entry = StateEntry 0 [FunctionDef ''test'' [Return (Some (Name 0 ''S0''))]]"

definition same_index_script :: "node list" where
  "same_index_script =
     [Expr (Constant (CStr ''Two states, both numbered 0.'')),
      ClassDef ''S0'' (Expr (Constant (CStr ''0: first'')) # entry_nodes first_entry),
      ClassDef ''S1'' (Expr (Constant (CStr ''0: second'')) # entry_nodes second_entry)]"

text \<open>The call \<open>F(MACHINE_ARGS[0])\<close>, written out as the node objects from \<open>i\<close> on.\<close>

definition machine_args_call :: "nat \<Rightarrow> node" where
  "machine_args_call i =
     Call (Name i ''F'')
       [Subscript (i + 1) (Name (i + 2) ''MACHINE_ARGS'') (Index (Constant (CInt 0)))] []"

subsection \<open>The argument values of the specification\<close>

text \<open>
  Following the specification's words, for comparison with \<open>parse_args\<close>: a call
  signature holds the values of the arguments of the call. This is the value that an
  integer literal, a negated integer literal and a qualified constant stand for; an
  argument of another form has none.
\<close>

definition spec_argument_value :: "(string \<times> pyobj) list \<Rightarrow> node \<Rightarrow> int option" where
  "spec_argument_value g node =
     (case node of
        Constant (CInt n) \<Rightarrow> Some n
      | UnaryOp USub (Constant (CInt n)) \<Rightarrow> Some (- n)
      | Attribute (Name i nm) attr \<Rightarrow>
          (case map_of g nm of Some (EnumObj members) \<Rightarrow> map_of members attr | _ \<Rightarrow> None)
      | _ \<Rightarrow> None)"

section \<open>Properties\<close>

subsection \<open>Helper lemmas\<close>

lemma le_bytes_sum:
  "(n::int) mod 256 + 256 * ((n div 256) mod 256 + 256 * ((n div 65536) mod 256
      + 256 * ((n div 16777216) mod 256))) = n mod 4294967296"
proof -
  have d: "n div 256 div 256 = n div 65536" "n div 65536 div 256 = n div 16777216"
    by (simp_all add: zdiv_zmult2_eq[symmetric])
  have a: "n mod 4294967296 = n mod 256 + 256 * ((n div 256) mod 16777216)"
    using zmod_zmult2_eq[of 16777216 n 256] by simp
  have b: "(n div 256) mod 16777216 = (n div 256) mod 256 + 256 * ((n div 65536) mod 65536)"
    using zmod_zmult2_eq[of 65536 "n div 256" 256] by (simp add: d)
  have c: "(n div 65536) mod 65536 = (n div 65536) mod 256 + 256 * ((n div 16777216) mod 256)"
    using zmod_zmult2_eq[of 256 "n div 65536" 256] by (simp add: d)
  show ?thesis by (simp only: a b c)
qed

lemma le_bytes_fold:
  "foldr (\<lambda>b acc. uint b + 256 * acc)
     (map (\<lambda>k. word_of_int (n div 256 ^ k) :: byte) [0, 1, 2, 3]) 0 = n mod 4294967296"
  unfolding le_bytes_sum [of n, symmetric] by (simp add: uint_word_of_int)

lemma unpack_i_unfold:
  "unpack_i bs =
     (if foldr (\<lambda>b acc. uint b + 256 * acc) bs 0 < 2147483648
      then foldr (\<lambda>b acc. uint b + 256 * acc) bs 0
      else foldr (\<lambda>b acc. uint b + 256 * acc) bs 0 - 4294967296)"
  by (simp add: unpack_i_def Let_def)

lemma unpack_pack_i:
  assumes "- 2147483648 \<le> n" "n < 2147483648"
  shows "\<exists>bs. pack_i n = Inr bs \<and> length bs = 4 \<and> unpack_i bs = n"
proof -
  let ?bs = "map (\<lambda>k. word_of_int (n div 256 ^ k) :: byte) [0, 1, 2, 3]"
  have p: "pack_i n = Inr ?bs" using assms by (simp add: pack_i_def)
  have "unpack_i ?bs = n"
  proof (cases "0 \<le> n")
    case True
    then have "n mod 4294967296 = n" using assms by simp
    then show ?thesis
      unfolding unpack_i_unfold le_bytes_fold using assms by simp
  next
    case False
    then have "(n + 4294967296) mod 4294967296 = n + 4294967296"
      using assms by (intro mod_pos_pos_trivial) auto
    then have "n mod 4294967296 = n + 4294967296" by simp
    then show ?thesis
      unfolding unpack_i_unfold le_bytes_fold using assms False by simp
  qed
  moreover have "length ?bs = 4" by simp
  ultimately show ?thesis using p by blast
qed

lemma replicate_8: "replicate 8 x = [x, x, x, x, x, x, x, x]"
  by (simp add: eval_nat_numeral)

text \<open>The equations by which the simplifier runs the compiler on an example.\<close>

lemmas run_compiler =
  replicate_8 sample_env_def sample_scope_def call_F_1_def call_G_1_def return_S_def
  build_conditions.simps lone_return_value_def else_loop.simps init_compiler_def get_calls.simps
  is_bool_def parse_arg_def compile_ezl.simps compile_test_function_def test_function_id_def
  compile_number_def pack_B_def compile_ezl_arg_def store_if_queued_def equals_suffix_def
  is_call_def is_If_def return_index_def list_remove_def save_into_next_available_register_def
  list_index_def three_F_test_def nested_test_def else_test_def and_test_def state_class_def
  two_state_script_def one_state_script_def same_index_script_def first_entry_def
  second_entry_def compile_script_def scan_state_def get_docstring_def STATE_DOCSTRING_RE_def
  is_digit_def py_int_def build_state_def lone_return_def machine_args_call_def
  A_and_B_def nested_else_test_def

lemma three_F_test_run:
  "snd (build_conditions sample_env sample_scope three_F_test init_compiler) =
     Inr (\<lparr>registers = replicate 8 None,
            state_call_set = {(FName ''F'', [AInt 1])}, to_write_count = 2, to_write = [],
            current_to_write = [(FName ''F'', [AInt 1])]\<rparr>,
          [Condition 7 [0x45, 0x41, 0x85, 0xa1] [] [],
           Condition 7 [0x45, 0x41, 0x85, 0xa1] [] [],
           Condition 7 [0x45, 0x41, 0x85, 0xa1] [] []])"
  by (simp add: run_compiler)

lemma parse_arg_value:
  "spec_argument_value g a = Some n \<Longrightarrow> parse_arg g a = Inr (AInt n)"
  by (auto simp: spec_argument_value_def parse_arg_def globals_lookup_def
           split: node.splits pyconst.splits unaryop.splits option.splits pyobj.splits)

lemma parse_args_values:
  "list_all2 (\<lambda>a n. spec_argument_value g a = Some n) as ns \<Longrightarrow>
     parse_args g as = Inr (map AInt ns)"
  by (induction as ns rule: list_all2_induct) (simp_all add: parse_arg_value)

lemma length_alist_update:
  "length (AList.update k v al) = (if k \<in> fst ` set al then length al else Suc (length al))"
  by (induction al) auto

lemma build_states_append:
  "build_states ev sc (es @ es') s =
     (case build_states ev sc es s of Inl e \<Rightarrow> Inl e | Inr s1 \<Rightarrow> build_states ev sc es' s1)"
proof (induction es arbitrary: s)
  case Nil
  then show ?case by (cases s) simp
next
  case (Cons e es)
  then show ?case by (cases s) (simp split: sum.splits prod.splits)
qed

lemma else_loop_result:
  "else_loop i ns = Inr ns' \<Longrightarrow>
     (i < length ns \<and> has_orelse (last ns) \<longrightarrow>
        (\<exists>t b e. last ns = IfNode t b e \<and> ns' = ns @ [IfNode (Constant (CInt 1)) e []]))
     \<and> (\<not> (i < length ns \<and> has_orelse (last ns)) \<longrightarrow> ns' = ns)"
proof (induction i ns rule: else_loop.induct)
  case (1 i if_nodes)
  show ?case
  proof (cases "i < length if_nodes")
    case False
    with 1(3) show ?thesis by (simp add: else_loop.simps)
  next
    case True
    then obtain test body orelse where n: "if_nodes ! i = IfNode test body orelse"
      using 1(3) by (subst (asm) else_loop.simps) (auto split: node.splits)
    show ?thesis
    proof (cases "orelse = []")
      case e: True
      with 1(3) n True have r: "else_loop (Suc i) if_nodes = Inr ns'"
        by (subst (asm) else_loop.simps) simp
      from e have ne: "\<not> orelse \<noteq> []" by simp
      note ih = 1(2) [OF True n ne r]
      show ?thesis
      proof (cases "Suc i < length if_nodes")
        case True
        with ih show ?thesis by simp
      next
        case False
        with True have "last if_nodes = if_nodes ! i"
          by (metis Suc_lessI diff_Suc_1 last_conv_nth list.size(3) not_less_zero)
        with False ih n e show ?thesis by (simp add: has_orelse_def)
      qed
    next
      case False
      with 1(3) n True
      have l: "i = length if_nodes - 1"
        and r: "else_loop (Suc i) (if_nodes @ [IfNode (Constant (CInt 1)) orelse []]) = Inr ns'"
        by (subst (asm) else_loop.simps, simp split: if_splits)+
      from 1(1) [OF True n False _ r] l
      have "ns' = if_nodes @ [IfNode (Constant (CInt 1)) orelse []]"
        by (simp add: has_orelse_def)
      moreover from l True have "last if_nodes = if_nodes ! i"
        by (metis last_conv_nth list.size(3) not_less_zero)
      ultimately show ?thesis using n False True by (simp add: has_orelse_def)
    qed
  qed
qed

subsection \<open>Registers\<close>

text \<open>
  Claim C1 fails on the code. The planner queues the call tuple that \<open>get_calls\<close> builds,
  \<open>(function_name, *args)\<close>, and \<open>compile_test_function\<close> looks for the tuple
  \<open>(f_id, *args)\<close>: a name is never equal to a number, so no call is ever found in
  \<open>current_to_write\<close> or in a register. In a test that asks \<open>F(1)\<close> at three nodes, the
  planner queues \<open>F(1)\<close> at the second and at the third, and all three nodes are compiled
  to the call in full, \<open>45 41 85\<close>, with no store opcode \<open>167 + i\<close> and no load opcode
  \<open>175 + i\<close>; the registers are as empty after as before.
\<close>

theorem repeated_call_compiled_in_full:
  "snd (build_conditions sample_env sample_scope three_F_test init_compiler) =
     Inr (\<lparr>registers = replicate 8 None,
            state_call_set = {(FName ''F'', [AInt 1])}, to_write_count = 2, to_write = [],
            current_to_write = [(FName ''F'', [AInt 1])]\<rparr>,
          [Condition 7 [0x45, 0x41, 0x85, 0xa1] [] [],
           Condition 7 [0x45, 0x41, 0x85, 0xa1] [] [],
           Condition 7 [0x45, 0x41, 0x85, 0xa1] [] []])"
  by (rule three_F_test_run)

text \<open>
  Claim C2 fails on the code. \<open>build_conditions\<close> calls the planner on the list it is given,
  and the planner goes through all nesting levels; \<open>build_conditions\<close> then calls itself
  on the subconditions of each node, and so calls the planner on them once more. In a
  test of two nodes, one inside the other, the planner puts three entries in the queue.
  Two are taken, the third is left in the queue when the test is done; and the second
  pass over the inner node finds \<open>G(1)\<close>, which the script has once, in the set of seen
  calls and counts a register for it.
\<close>

theorem subconditions_planned_again:
  "snd (build_conditions sample_env sample_scope nested_test init_compiler) =
     Inr (\<lparr>registers = replicate 8 None,
            state_call_set = {(FName ''G'', [AInt 1]), (FName ''F'', [AInt 1])},
            to_write_count = 1, to_write = [[(FName ''G'', [AInt 1])]],
            current_to_write = []\<rparr>,
          [Condition (- 1) [0x45, 0x41, 0x85, 0xa1] []
             [Condition 7 [0x46, 0x41, 0x85, 0xa1] [] []]])"
  by (simp add: run_compiler)

text \<open>
  Claim C3 fails on the code. \<open>reset_condition_registers\<close> is defined and never called:
  \<open>compile_script\<close> builds one state after the other on the same condition state. In a
  script of two states with the same test, \<open>F(1) and G(1)\<close>, the second state finds both
  calls in the set of seen calls, the planner queues them, and the two operands of its
  chain end in \<open>a6\<close>; the first state's end in \<open>b7\<close>, and so do those of the second state
  when it is the only state of the script.
\<close>

theorem second_state_sees_first_state_calls:
  "map_sum id fst (compile_script sample_env two_state_script) =
     Inr [(0, State 0 [Condition 1 [0x45, 0x41, 0x85, 0xb7, 0x46, 0x41, 0x85, 0xb7, 0x98, 0xa1]
                        [] []] [] [] []),
          (1, State 1 [Condition 1 [0x45, 0x41, 0x85, 0xa6, 0x46, 0x41, 0x85, 0xa6, 0x98, 0xa1]
                        [] []] [] [] [])]
   \<and> map_sum id fst (compile_script sample_env one_state_script) =
     Inr [(1, State 1 [Condition 1 [0x45, 0x41, 0x85, 0xb7, 0x46, 0x41, 0x85, 0xb7, 0x98, 0xa1]
                        [] []] [] [] [])]"
  by (simp add: run_compiler)

text \<open>
  Claim C6 fails on the code, by the defect of claim C1. In the test that asks \<open>F(1)\<close> at
  three nodes, the planner queues \<open>F(1)\<close> as the first-time write of the second node. The
  first node is compiled and takes the first entry of the queue; the second node takes
  the entry with \<open>F(1)\<close> as its \<open>current_to_write\<close>, and there \<open>compile_test_function\<close>
  compiles the call of that node to \<open>45 41 85\<close> and nothing more: no store opcode
  \<open>167 + i\<close> is appended, no register is taken and the call stays in the list, since the
  tuple the function looks for begins with the id 5 and the tuple in the list with the
  name \<open>F\<close>.
\<close>

theorem queued_call_compiled_without_store:
  "plan_condition_registers sample_scope three_F_test init_compiler =
     Inr \<lparr>registers = replicate 8 None,
           state_call_set = {(FName ''F'', [AInt 1])}, to_write_count = 2,
           to_write = [[], [(FName ''F'', [AInt 1])], [(FName ''F'', [AInt 1])]],
           current_to_write = []\<rparr>
   \<and> build_loop sample_env sample_scope (take 1 three_F_test)
       \<lparr>registers = replicate 8 None,
         state_call_set = {(FName ''F'', [AInt 1])}, to_write_count = 2,
         to_write = [[], [(FName ''F'', [AInt 1])], [(FName ''F'', [AInt 1])]],
         current_to_write = []\<rparr> =
     Inr (\<lparr>registers = replicate 8 None,
            state_call_set = {(FName ''F'', [AInt 1])}, to_write_count = 2,
            to_write = [[(FName ''F'', [AInt 1])], [(FName ''F'', [AInt 1])]],
            current_to_write = []\<rparr>,
          [Condition 7 [0x45, 0x41, 0x85, 0xa1] [] []])
   \<and> compile_test_function sample_env sample_scope (call_F_1 2) None
       \<lparr>registers = replicate 8 None,
         state_call_set = {(FName ''F'', [AInt 1])}, to_write_count = 2,
         to_write = [[(FName ''F'', [AInt 1])]],
         current_to_write = [(FName ''F'', [AInt 1])]\<rparr> =
     Inr (\<lparr>registers = replicate 8 None,
            state_call_set = {(FName ''F'', [AInt 1])}, to_write_count = 2,
            to_write = [[(FName ''F'', [AInt 1])]],
            current_to_write = [(FName ''F'', [AInt 1])]\<rparr>,
          [0x45, 0x41, 0x85])"
  by (simp add: run_compiler)

subsection \<open>Call signatures\<close>

text \<open>
  Claim C5, as the code has it. Two calls of the same function whose arguments are integer
  literals, negated integer literals or qualified constants, with the same values in the
  same order, give the same tuple in the planner (wherever the calls stand and however
  each value is written), and the same function id and arguments in the compiler, where
  the two calls are compiled alike in any one state. Nothing is said of an argument that
  is a name or a subscript: \<open>parse_args\<close> stores the node object itself.
\<close>

theorem call_signature_value_equality:
  assumes "list_all2 (\<lambda>a n. spec_argument_value g a = Some n) as ns"
    and "list_all2 (\<lambda>a n. spec_argument_value g a = Some n) as' ns"
  shows "get_calls g (Call (Name i f) as kws) = Inr [(FName f, map AInt ns)]
     \<and> get_calls g (Call (Name j f) as' kws') = Inr [(FName f, map AInt ns)]
     \<and> parse_args g as = parse_args g as'
     \<and> test_function_id ev (Name i f) = test_function_id ev (Name j f)
     \<and> compile_test_function ev \<lparr>globals = g, state_info = si\<rparr> (Call (Name i f) as []) eq c
         = compile_test_function ev \<lparr>globals = g, state_info = si\<rparr> (Call (Name j f) as' []) eq c"
proof -
  have p: "parse_args g as = Inr (map AInt ns)" "parse_args g as' = Inr (map AInt ns)"
    by (rule parse_args_values [OF assms(1)], rule parse_args_values [OF assms(2)])
  then show ?thesis
    by (simp add: get_calls.simps is_bool_def test_function_id_def compile_test_function_def
             cong: sum.case_cong)
qed

theorem call_signature_value_equality_witness:
  "get_calls [(''E'', EnumObj [(''TWO'', 2)])] (Call (Name 0 ''F'') [Constant (CInt 2)] [])
     = Inr [(FName ''F'', [AInt 2])]
   \<and> get_calls [(''E'', EnumObj [(''TWO'', 2)])]
       (Call (Name 1 ''F'') [Attribute (Name 2 ''E'') ''TWO''] [])
     = Inr [(FName ''F'', [AInt 2])]"
proof -
  have a: "list_all2 (\<lambda>a n. spec_argument_value [(''E'', EnumObj [(''TWO'', 2)])] a = Some n)
             [Constant (CInt 2)] [2]"
    by (simp add: spec_argument_value_def)
  have b: "list_all2 (\<lambda>a n. spec_argument_value [(''E'', EnumObj [(''TWO'', 2)])] a = Some n)
             [Attribute (Name 2 ''E'') ''TWO''] [2]"
    by (simp add: spec_argument_value_def)
  from call_signature_value_equality [OF a b, of 0 "''F''" "[]" 1 "[]"]
  show ?thesis by simp
qed

text \<open>
  The claim as the specification words it fails for \<open>F(MACHINE_ARGS[0])\<close> written twice:
  the two subscripts are two node objects, and the two tuples differ.
\<close>

theorem machine_args_counterexample:
  "get_calls [] (machine_args_call 0) \<noteq> get_calls [] (machine_args_call 10)"
  by (simp add: machine_args_call_def get_calls.simps is_bool_def parse_arg_def)

subsection \<open>Boolean chains\<close>

text \<open>
  Claim C7 fails on the code, by the defect of claim C2. The byte after an operand of an
  \<open>and\<close> chain is \<open>b7\<close> when \<open>current_to_write\<close> is empty and \<open>a6\<close> when it is not, and
  \<open>current_to_write\<close> is the entry that the node took from the queue, which need not be
  the entry the planner made for that node. In the test of two blocks, the planner, run
  on the whole test, queues no call for any of the three nodes. When the first block is
  built, \<open>build_conditions\<close> appends the \<open>else\<close> block to the list of its subconditions
  and plans that list again: the appended node takes the entry of the second block, and
  the second block takes the entry of the second pass over \<open>if G(1)\<close>, which holds
  \<open>G(1)\<close>. So both operands of \<open>A() and B()\<close> end in \<open>a6\<close>, with no call of that node
  queued; the same block as the only block of a test ends them in \<open>b7\<close>.
\<close>

theorem and_chain_continues_with_nothing_pending:
  "plan_condition_registers sample_scope nested_else_test init_compiler =
     Inr \<lparr>registers = replicate 8 None,
           state_call_set = {(FName ''B'', []), (FName ''A'', []),
                             (FName ''G'', [AInt 1]), (FName ''F'', [AInt 1])},
           to_write_count = 0, to_write = [[], [], []], current_to_write = []\<rparr>
   \<and> snd (build_conditions sample_env sample_scope nested_else_test init_compiler) =
     Inr (\<lparr>registers = replicate 8 None,
            state_call_set = {(FName ''B'', []), (FName ''A'', []),
                              (FName ''G'', [AInt 1]), (FName ''F'', [AInt 1])},
            to_write_count = 1, to_write = [[]],
            current_to_write = [(FName ''G'', [AInt 1])]\<rparr>,
          [Condition (- 1) [0x45, 0x41, 0x85, 0xa1] []
             [Condition 7 [0x46, 0x41, 0x85, 0xa1] [] [], Condition 7 [0x41, 0xa1] [] []],
           Condition 7 [0x41, 0x84, 0xa6, 0x42, 0x84, 0xa6, 0x98, 0xa1] [] []])
   \<and> snd (build_conditions sample_env sample_scope [A_and_B 4] init_compiler) =
     Inr (\<lparr>registers = replicate 8 None,
            state_call_set = {(FName ''B'', []), (FName ''A'', [])},
            to_write_count = 0, to_write = [], current_to_write = []\<rparr>,
          [Condition 7 [0x41, 0x84, 0xb7, 0x42, 0x84, 0xb7, 0x98, 0xa1] [] []])"
  by (simp add: run_compiler insert_commute)

subsection \<open>Numbers\<close>

text \<open>
  Claim C8, as the code has it. For \<open>-64 \<le> n \<le> 62\<close>, \<open>compile_number n\<close> is the single byte
  \<open>n + 64\<close>, and that byte minus 64 is \<open>n\<close> again. For every other \<open>n\<close> that a signed
  32-bit integer holds, it is the byte \<open>0x82\<close> and four bytes that read back, least
  significant first and as a signed number, as \<open>n\<close>. For an \<open>n\<close> outside the signed 32-bit
  range \<open>struct.pack\<close> raises, and so does \<open>compile_number\<close>.
\<close>

theorem compile_number_encoding:
  "(- 64 \<le> n \<and> n \<le> 62 \<longrightarrow>
      compile_number n = Inr [word_of_int (n + 64)]
      \<and> uint (word_of_int (n + 64) :: byte) - 64 = n)
   \<and> ((n < - 64 \<or> 62 < n) \<and> - (2 ^ 31) \<le> n \<and> n < 2 ^ 31 \<longrightarrow>
      (\<exists>bs. compile_number n = Inr (0x82 # bs) \<and> length bs = 4 \<and> unpack_i bs = n))
   \<and> (n < - (2 ^ 31) \<or> 2 ^ 31 \<le> n \<longrightarrow> compile_number n = Inl StructError)"
proof (intro conjI impI)
  assume a: "- 64 \<le> n \<and> n \<le> 62"
  then show "compile_number n = Inr [word_of_int (n + 64)]"
    by (simp add: compile_number_def pack_B_def)
  have "uint (word_of_int (n + 64) :: byte) = (n + 64) mod 2 ^ LENGTH(8)"
    by (rule uint_word_of_int)
  with a show "uint (word_of_int (n + 64) :: byte) - 64 = n" by simp
next
  assume a: "(n < - 64 \<or> 62 < n) \<and> - (2 ^ 31) \<le> n \<and> n < 2 ^ 31"
  then obtain bs where "pack_i n = Inr bs" "length bs = 4" "unpack_i bs = n"
    using unpack_pack_i [of n] by fastforce
  with a show "\<exists>bs. compile_number n = Inr (0x82 # bs) \<and> length bs = 4 \<and> unpack_i bs = n"
    by (auto simp: compile_number_def)
next
  assume "n < - (2 ^ 31) \<or> 2 ^ 31 \<le> n"
  then show "compile_number n = Inl StructError"
    by (auto simp: compile_number_def pack_i_def)
qed

theorem compile_number_encoding_witness:
  "compile_number 62 = Inr [126] \<and> compile_number (- 64) = Inr [0]
   \<and> compile_number 63 = Inr [0x82, 63, 0, 0, 0]
   \<and> compile_number (- 65) = Inr [0x82, 0xbf, 0xff, 0xff, 0xff]
   \<and> unpack_i [0xbf, 0xff, 0xff, 0xff] = - 65
   \<and> compile_number (- 2147483649) = Inl StructError"
  using compile_number_encoding [of 62] compile_number_encoding [of "- 64"]
    compile_number_encoding [of 63] compile_number_encoding [of "- 65"]
    compile_number_encoding [of "- 2147483649"]
  by (simp add: compile_number_def pack_i_def unpack_i_def)

text \<open>
  The claim as the specification words it, for every integer outside \<open>[-64, 62]\<close>, fails
  at \<open>n = 2^31\<close>: no bytes are returned.
\<close>

theorem compile_number_out_of_int32_counterexample:
  "compile_number 2147483648 = Inl StructError"
  by (simp add: compile_number_def pack_i_def)



subsection \<open>The script and its states\<close>

text \<open>
  Claim C4, as the code has it. \<open>self.states[index] = ...\<close> is an assignment to a dict:
  when the states built so far already hold a state under the index of the next one,
  nothing is raised; the new state takes the place of the old one under that index, and
  the number of states stays as it is.
\<close>

theorem same_index_replaces_state:
  assumes "build_states ev sc es (states, c) = Inr (states1, c1)"
    and "build_state ev sc (entry_index e) (entry_nodes e) c1 = Inr (c2, st)"
  shows "\<exists>states2. build_states ev sc (es @ [e]) (states, c) = Inr (states2, c2)
           \<and> map_of states2 (entry_index e) = Some st
           \<and> fst ` set states2 = insert (entry_index e) (fst ` set states1)
           \<and> length states2 =
               (if entry_index e \<in> fst ` set states1 then length states1
                else Suc (length states1))"
proof -
  let ?s2 = "AList.update (entry_index e) st states1"
  have "build_states ev sc (es @ [e]) (states, c) = Inr (?s2, c2)"
    using assms by (simp add: build_states_append)
  moreover have "map_of ?s2 (entry_index e) = Some st" by (simp add: update_conv')
  moreover have "fst ` set ?s2 = insert (entry_index e) (fst ` set states1)"
    by (simp add: dom_update)
  moreover have "length ?s2 =
      (if entry_index e \<in> fst ` set states1 then length states1 else Suc (length states1))"
    by (rule length_alist_update)
  ultimately show ?thesis by blast
qed

theorem same_index_replaces_state_witness:
  "\<exists>states2.
     build_states sample_env \<lparr>globals = [], state_info = [(''S0'', first_entry), (''S1'', second_entry)]\<rparr>
       [first_entry, second_entry] ([], init_compiler) = Inr (states2, init_compiler)
     \<and> map_of states2 0 = Some (State 0 [Condition 0 [0x41, 0xa1] [] []] [] [] [])
     \<and> length states2 = 1"
proof -
  let ?sc = "\<lparr>globals = [], state_info = [(''S0'', first_entry), (''S1'', second_entry)]\<rparr>"
  have a: "build_states sample_env ?sc [first_entry] ([], init_compiler)
             = Inr ([(0, State 0 [Condition (- 1) [0x41, 0xa1] [] []] [] [] [])], init_compiler)"
    by (simp add: run_compiler)
  have b: "build_state sample_env ?sc (entry_index second_entry) (entry_nodes second_entry)
             init_compiler
             = Inr (init_compiler, State 0 [Condition 0 [0x41, 0xa1] [] []] [] [] [])"
    by (simp add: run_compiler)
  from same_index_replaces_state [OF a b] obtain states2 where
    "build_states sample_env ?sc ([first_entry] @ [second_entry]) ([], init_compiler)
       = Inr (states2, init_compiler)"
    and "map_of states2 (entry_index second_entry)
       = Some (State 0 [Condition 0 [0x41, 0xa1] [] []] [] [] [])"
    and "length states2 =
       (if entry_index second_entry
             \<in> fst ` set [(0::int, State 0 [Condition (- 1) [0x41, 0xa1] [] []] [] [] [])]
        then length [(0::int, State 0 [Condition (- 1) [0x41, 0xa1] [] []] [] [] [])]
        else Suc (length [(0::int, State 0 [Condition (- 1) [0x41, 0xa1] [] []] [] [] [])]))"
    by blast
  then show ?thesis
    by (intro exI [of _ states2]) (simp add: second_entry_def)
qed

text \<open>
  The claim as the specification words it fails on a script whose two state classes both
  carry the number 0: the script is compiled, and the state machine has the second state
  only.
\<close>

theorem same_index_counterexample:
  "map_sum id fst (compile_script sample_env same_index_script) =
     Inr [(0, State 0 [Condition 0 [0x41, 0xa1] [] []] [] [] [])]"
  by (simp add: run_compiler)

text \<open>
  Claim C9. \<open>compile_script\<close> never reads the first statement of the script: the result
  is the same whatever that statement is, and a script of one statement alone, of any
  kind, is compiled to a state machine with no states.
\<close>

theorem first_statement_never_read:
  "compile_script ev (node # nodes) = compile_script ev (node' # nodes)
   \<and> compile_script ev [node] = Inr ([], init_compiler)"
  by (simp add: compile_script_def)

subsection \<open>The list of statements of a test\<close>

text \<open>
  Claim C10. When \<open>build_conditions\<close> accepts a test, the list it was given is, at the end
  of the call, that list with one node appended, \<open>if 1:\<close> with the \<open>else\<close> block as its
  body, in case the last statement is an \<open>if\<close> with an \<open>else\<close> block; and it is the list
  as it was in every other case.
\<close>

theorem else_block_appended_in_place:
  assumes "snd (build_conditions ev sc if_nodes c) = Inr r"
  shows "(if_nodes \<noteq> [] \<and> last if_nodes = IfNode t b orelse \<and> orelse \<noteq> [] \<longrightarrow>
            fst (build_conditions ev sc if_nodes c)
              = if_nodes @ [IfNode (Constant (CInt 1)) orelse []])
         \<and> (if_nodes = [] \<or> \<not> has_orelse (last if_nodes) \<longrightarrow>
            fst (build_conditions ev sc if_nodes c) = if_nodes)"
proof (cases "lone_return_value if_nodes")
  case (Some v)
  then have "if_nodes = [Return v]"
    by (auto simp: lone_return_value_def split: list.splits node.splits)
  then show ?thesis using Some by (simp add: build_conditions.simps has_orelse_def)
next
  case None
  show ?thesis
  proof (cases "else_loop 0 if_nodes")
    case (Inl e)
    with None assms show ?thesis by (simp add: build_conditions.simps)
  next
    case (Inr ns')
    then have f: "fst (build_conditions ev sc if_nodes c) = ns'"
      using None by (simp add: build_conditions.simps)
    from else_loop_result [OF Inr] show ?thesis
      unfolding f by (auto simp: has_orelse_def)
  qed
qed

theorem else_block_appended_in_place_witness:
  "fst (build_conditions sample_env sample_scope else_test init_compiler)
     = else_test @ [IfNode (Constant (CInt 1)) [return_S 2] []]
   \<and> fst (build_conditions sample_env sample_scope three_F_test init_compiler) = three_F_test"
proof -
  have a: "snd (build_conditions sample_env sample_scope else_test init_compiler) =
      Inr (init_compiler\<lparr>state_call_set := {(FName ''F'', [AInt 1])}\<rparr>,
           [Condition 7 [0x45, 0x41, 0x85, 0xa1] [] [], Condition 7 [0x41, 0xa1] [] []])"
    by (simp add: run_compiler)
  have l: "else_test \<noteq> [] \<and> last else_test = IfNode (call_F_1 0) [return_S 1] [return_S 2]
             \<and> [return_S 2] \<noteq> []"
    by (simp add: else_test_def)
  have n: "three_F_test = [] \<or> \<not> has_orelse (last three_F_test)"
    by (simp add: three_F_test_def has_orelse_def)
  from else_block_appended_in_place [OF a] l
    else_block_appended_in_place [OF three_F_test_run] n
  show ?thesis by blast
qed

end
